theory Spec2Isabelle
  imports Complex_Main "HOL-Library.AList"
begin

section \<open>Data model\<close>

text \<open>
  The module \<open>ela/modelUtilities.py\<close> orchestrates three libraries: pandas tables,
  a nearest-neighbour classifier and a plotting/mapping back end. Tables are pandas
  data frames that the functions receive by reference and change in place, so the model
  keeps them in a heap and every function threads a world (heap and event log).
  Python exceptions are values of type \<open>error\<close>.
\<close>

datatype error =
    KeyError "string list"
  | AttributeError string
  | IndexError
  | ValueError string
  | LibraryError string

text \<open>A cell of a table: a number, a text label or a tuple (the \<open>centers\<close> column).
  Python floats are idealised as exact rationals.\<close>

datatype cell = Num rat | Str string | Tup "cell list"

text \<open>A data frame: its index length, its columns in order (name and values), and the
  \<open>is_copy\<close> attribute that \<open>predict_types\<close> resets.\<close>

record dataframe =
  nrows :: nat
  columns :: "(string \<times> cell list) list"
  is_copy :: bool

text \<open>Calls to matplotlib.pyplot made by \<open>plot_knn_error\<close>.\<close>

datatype plt =
    Figure int int
  | Scatter "rat list" "rat list" string string
  | XLabel string
  | YLabel string
  | YLim int int
  | XLim int int
  | Legend

text \<open>Observable calls to collaborators, in the order they happen. \<open>Fit k w X y\<close> is one
  classifier constructed with \<open>n_neighbors = k, weights = w\<close> and fitted on \<open>X, y\<close>.\<close>

datatype event =
    Fit int string "cell list list" "cell list"
  | GeoParse
  | GeoCenters
  | Colors string
  | Render
  | Plot plt

record world =
  heap :: "nat \<Rightarrow> dataframe"
  next_ref :: nat
  trace :: "event list"

section \<open>Exceptions and state\<close>

type_synonym 'a prog = "world \<Rightarrow> (error + 'a) \<times> world"

definition ret :: "'a \<Rightarrow> 'a prog" where
  "ret x w = (Inr x, w)"

definition raise :: "error \<Rightarrow> 'a prog" where
  "raise e w = (Inl e, w)"

definition lift :: "error + 'a \<Rightarrow> 'a prog" where
  "lift r w = (r, w)"

definition bnd :: "'a prog \<Rightarrow> ('a \<Rightarrow> 'b prog) \<Rightarrow> 'b prog" where
  "bnd m f w = (case m w of (Inl e, w') \<Rightarrow> (Inl e, w') | (Inr x, w') \<Rightarrow> f x w')"

definition emit :: "event \<Rightarrow> unit prog" where
  "emit e w = (Inr (), w\<lparr>trace := trace w @ [e]\<rparr>)"

definition read_df :: "nat \<Rightarrow> dataframe prog" where
  "read_df r w = (Inr (heap w r), w)"

definition write_df :: "nat \<Rightarrow> dataframe \<Rightarrow> unit prog" where
  "write_df r df w = (Inr (), w\<lparr>heap := (heap w)(r := df)\<rparr>)"

definition alloc :: "dataframe \<Rightarrow> nat prog" where
  "alloc df w = (Inr (next_ref w), w\<lparr>heap := (heap w)(next_ref w := df), next_ref := Suc (next_ref w)\<rparr>)"

section \<open>pandas operations used by the module\<close>

text \<open>\<open>df[names]\<close> with a list of labels, which reads the columns of \<open>df\<close>: KeyError
  naming the missing labels, otherwise the selected columns.\<close>

definition getitem_cols :: "string list \<Rightarrow> (string \<times> cell list) list \<Rightarrow> error + cell list list" where
  "getitem_cols names cols =
     (case filter (\<lambda>n. map_of cols n = None) names of
        [] \<Rightarrow> Inr (map (\<lambda>n. the (map_of cols n)) names)
      | missing \<Rightarrow> Inl (KeyError missing))"

text \<open>The two-column selection \<open>df[['lat', 'lon']]\<close> as the array handed to the classifier:
  one row \<open>[lat, lon]\<close> per table row.\<close>

definition lat_lon :: "dataframe \<Rightarrow> error + cell list list" where
  "lat_lon df =
     (case getitem_cols [''lat'', ''lon''] (columns df) of
        Inl e \<Rightarrow> Inl e
      | Inr cs \<Rightarrow> Inr (map (\<lambda>(a, b). [a, b]) (zip (cs ! 0) (cs ! 1))))"

text \<open>Attribute access to a column, \<open>df.type\<close> (with \<open>np.ravel\<close>, the identity on a column).\<close>

definition getattr_col :: "string \<Rightarrow> dataframe \<Rightarrow> error + cell list" where
  "getattr_col name df =
     (case map_of (columns df) name of
        None \<Rightarrow> Inl (AttributeError name)
      | Some c \<Rightarrow> Inr c)"

text \<open>\<open>df[name] = values\<close>: the values must have the length of the index; an existing column
  is replaced where it stands, a new one is appended.\<close>

definition setitem :: "string \<Rightarrow> cell list \<Rightarrow> dataframe \<Rightarrow> error + dataframe" where
  "setitem name vals df =
     (if length vals = nrows df
      then Inr (df\<lparr>columns := AList.update name vals (columns df)\<rparr>)
      else Inl (ValueError ''Length of values does not match length of index''))"

text \<open>\<open>df.iterrows()\<close>: the rows in index order, each a mapping from column name to cell.\<close>

definition iterrows :: "dataframe \<Rightarrow> (string \<times> cell) list list" where
  "iterrows df = map (\<lambda>i. map (\<lambda>(n, c). (n, c ! i)) (columns df)) [0..<nrows df]"

definition getattr_row :: "string \<Rightarrow> (string \<times> cell) list \<Rightarrow> error + cell" where
  "getattr_row name row =
     (case map_of row name of
        None \<Rightarrow> Inl (AttributeError name)
      | Some c \<Rightarrow> Inr c)"

text \<open>\<open>xs[0]\<close>.\<close>

definition index0 :: "'a list \<Rightarrow> error + 'a" where
  "index0 xs = (case xs of [] \<Rightarrow> Inl IndexError | x # _ \<Rightarrow> Inr x)"

section \<open>The numerical libraries\<close>

text \<open>
  scikit-learn and numpy are not part of the repository; the functions below take them as
  a parameter. \<open>fit k w X y\<close> stands for \<open>KNeighborsClassifier(n_neighbors=k, weights=w)\<close>
  followed by \<open>.fit(X, y)\<close>, \<open>predict\<close> for \<open>clf.predict(X)\<close> and \<open>reshape_1_2\<close> for
  \<open>np.asarray(c).reshape(1, 2)\<close>. Each may raise.
\<close>

record 'm lib =
  fit :: "int \<Rightarrow> string \<Rightarrow> cell list list \<Rightarrow> cell list \<Rightarrow> error + 'm"
  predict :: "'m \<Rightarrow> cell list list \<Rightarrow> error + cell list"
  reshape_1_2 :: "cell \<Rightarrow> error + cell list"

text \<open>
  Modelled from the spec: \<open>clf.score(X, y)\<close> of the classification service, which is not in
  the repository. The spec gives it as the accuracy, the fraction of rows whose predicted
  type equals the actual type. A prediction of another length than \<open>y\<close>, or an empty sample,
  has no accuracy and is rejected.
\<close>

definition accuracy :: "cell list \<Rightarrow> cell list \<Rightarrow> rat" where
  "accuracy p y = of_nat (length (filter (\<lambda>(a, b). a = b) (zip p y))) / of_nat (length y)"

definition score :: "'m lib \<Rightarrow> 'm \<Rightarrow> cell list list \<Rightarrow> cell list \<Rightarrow> error + rat" where
  "score L clf X y =
     (case predict L clf X of
        Inl e \<Rightarrow> Inl e
      | Inr p \<Rightarrow>
          if length p = length y \<and> y \<noteq> []
          then Inr (accuracy p y)
          else Inl (ValueError ''inconsistent or empty sample''))"

text \<open>Constructing and fitting one classifier on a table's \<open>lat\<close>/\<open>lon\<close> columns against its
  \<open>type\<close> column, as \<open>clf.fit(df[['lat', 'lon']], np.ravel(df.type))\<close> evaluates it.\<close>

definition fit_on :: "'m lib \<Rightarrow> int \<Rightarrow> string \<Rightarrow> nat \<Rightarrow> 'm prog" where
  "fit_on L k weights df_ref =
     bnd (read_df df_ref) (\<lambda>df.
     bnd (lift (lat_lon df)) (\<lambda>X.
     bnd (lift (getattr_col ''type'' df)) (\<lambda>y.
     bnd (emit (Fit k weights X y)) (\<lambda>_.
     lift (fit L k weights X y)))))"

text \<open>\<open>clf.predict(df[['lat', 'lon']])\<close>.\<close>

definition predict_on :: "'m lib \<Rightarrow> 'm \<Rightarrow> nat \<Rightarrow> cell list prog" where
  "predict_on L clf df_ref =
     bnd (read_df df_ref) (\<lambda>df.
     bnd (lift (lat_lon df)) (\<lambda>X.
     lift (predict L clf X)))"

text \<open>\<open>df[name] = values\<close> on a table of the heap.\<close>

definition assign_col :: "nat \<Rightarrow> string \<Rightarrow> cell list \<Rightarrow> unit prog" where
  "assign_col df_ref name vals =
     bnd (read_df df_ref) (\<lambda>df.
     bnd (lift (setitem name vals df)) (\<lambda>df'.
     write_df df_ref df'))"

text \<open>\<open>df['pred'] = clf.predict(df[['lat', 'lon']])\<close>.\<close>

definition assign_pred :: "'m lib \<Rightarrow> 'm \<Rightarrow> nat \<Rightarrow> unit prog" where
  "assign_pred L clf df_ref =
     bnd (predict_on L clf df_ref) (\<lambda>p. assign_col df_ref ''pred'' p)"

text \<open>\<open>df.is_copy = False\<close>.\<close>

definition set_is_copy :: "nat \<Rightarrow> bool \<Rightarrow> unit prog" where
  "set_is_copy df_ref b =
     bnd (read_df df_ref) (\<lambda>df. write_df df_ref (df\<lparr>is_copy := b\<rparr>))"

section \<open>Model evaluator\<close>

text \<open>\<open>predict_types(k, weights, train_df, test_df)\<close>, lines 60 to 65.\<close>

definition predict_types :: "'m lib \<Rightarrow> int \<Rightarrow> string \<Rightarrow> nat \<Rightarrow> nat \<Rightarrow> unit prog" where
  "predict_types L k weights train_df test_df =
     bnd (fit_on L k weights train_df) (\<lambda>clf.
     bnd (set_is_copy train_df False) (\<lambda>_.
     bnd (set_is_copy test_df False) (\<lambda>_.
     bnd (assign_pred L clf train_df) (\<lambda>_.
     assign_pred L clf test_df))))"

text \<open>\<open>try_k(k, weights, train_df, test_df)\<close>, lines 111 to 120. The classifier is constructed
  first; \<open>x_train\<close> and \<open>y_train\<close> are read before the fit, \<open>x_test\<close> and \<open>y_test\<close> after it.\<close>

definition try_k :: "'m lib \<Rightarrow> int \<Rightarrow> string \<Rightarrow> nat \<Rightarrow> nat \<Rightarrow> (rat \<times> rat) prog" where
  "try_k L k weights train_df test_df =
     bnd (read_df train_df) (\<lambda>tr.
     bnd (lift (lat_lon tr)) (\<lambda>x_train.
     bnd (lift (getattr_col ''type'' tr)) (\<lambda>y_train.
     bnd (emit (Fit k weights x_train y_train)) (\<lambda>_.
     bnd (lift (fit L k weights x_train y_train)) (\<lambda>clf.
     bnd (read_df test_df) (\<lambda>te.
     bnd (lift (lat_lon te)) (\<lambda>x_test.
     bnd (lift (getattr_col ''type'' te)) (\<lambda>y_test.
     bnd (lift (score L clf x_train y_train)) (\<lambda>train_score.
     bnd (lift (score L clf x_test y_test)) (\<lambda>test_score.
     ret (1 - train_score, 1 - test_score)))))))))))"

text \<open>\<open>try_k_range(k_list, weights, train_df, test_df)\<close>, lines 150 to 156: the array
  \<open>errors\<close> starts as \<open>len(k_list)\<close> rows of zeros and the loop over \<open>range(len(k_list))\<close>
  fills row \<open>i\<close> after its call of \<open>try_k\<close>. A row is (K, training error, testing error).\<close>

fun try_k_range_loop ::
  "'m lib \<Rightarrow> int list \<Rightarrow> string \<Rightarrow> nat \<Rightarrow> nat \<Rightarrow> nat list \<Rightarrow> (rat \<times> rat \<times> rat) list
     \<Rightarrow> (rat \<times> rat \<times> rat) list prog" where
  "try_k_range_loop L k_list weights train_df test_df [] errors = ret errors"
| "try_k_range_loop L k_list weights train_df test_df (i # rest) errors =
     bnd (try_k L (k_list ! i) weights train_df test_df) (\<lambda>k_errors.
     try_k_range_loop L k_list weights train_df test_df rest
       (errors[i := (of_int (k_list ! i), fst k_errors, snd k_errors)]))"

definition try_k_range ::
  "'m lib \<Rightarrow> int list \<Rightarrow> string \<Rightarrow> nat \<Rightarrow> nat \<Rightarrow> (rat \<times> rat \<times> rat) list prog" where
  "try_k_range L k_list weights train_df test_df =
     try_k_range_loop L k_list weights train_df test_df [0..<length k_list]
       (replicate (length k_list) (0, 0, 0))"

text \<open>\<open>plot_knn_error(k_max, weights, train_df, test_df)\<close>, lines 180 to 191;
  \<open>list(range(1, k_max))\<close> is \<open>[1..k_max - 1]\<close>.\<close>

definition plot_knn_error :: "'m lib \<Rightarrow> int \<Rightarrow> string \<Rightarrow> nat \<Rightarrow> nat \<Rightarrow> unit prog" where
  "plot_knn_error L k_max weights train_df test_df =
     bnd (try_k_range L [1..k_max - 1] weights train_df test_df) (\<lambda>result.
     bnd (emit (Plot (Figure 4 4))) (\<lambda>_.
     bnd (emit (Plot (Scatter (map fst result) (map (fst \<circ> snd) result)
                        ''red'' ''Training error''))) (\<lambda>_.
     bnd (emit (Plot (Scatter (map fst result) (map (snd \<circ> snd) result)
                        ''blue'' ''Testing error''))) (\<lambda>_.
     bnd (emit (Plot (XLabel ''K''))) (\<lambda>_.
     bnd (emit (Plot (YLabel ''Error rate''))) (\<lambda>_.
     bnd (emit (Plot (YLim 0 1))) (\<lambda>_.
     bnd (emit (Plot (XLim 0 (k_max + 1)))) (\<lambda>_.
     emit (Plot Legend)))))))))"

section \<open>Prediction mapper\<close>

text \<open>The loop of \<open>geojson_predict_k\<close>, lines 237 to 240: for each row, its \<open>centers\<close> cell as
  a 1 by 2 array, then the first element of each classifier's prediction appended to
  \<open>gens\<close> and \<open>stors\<close>.\<close>

fun predict_centers ::
  "'m lib \<Rightarrow> 'm \<Rightarrow> 'm \<Rightarrow> (string \<times> cell) list list \<Rightarrow> cell list \<Rightarrow> cell list
     \<Rightarrow> (cell list \<times> cell list) prog" where
  "predict_centers L gen_clf stor_clf [] gens stors = ret (gens, stors)"
| "predict_centers L gen_clf stor_clf (row # rows) gens stors =
     bnd (lift (getattr_row ''centers'' row)) (\<lambda>c.
     bnd (lift (reshape_1_2 L c)) (\<lambda>latlon.
     bnd (lift (predict L gen_clf [latlon])) (\<lambda>pg.
     bnd (lift (index0 pg)) (\<lambda>g.
     bnd (lift (predict L stor_clf [latlon])) (\<lambda>ps.
     bnd (lift (index0 ps)) (\<lambda>s.
     predict_centers L gen_clf stor_clf rows (gens @ [g]) (stors @ [s])))))))"

text \<open>What the loop asks of one classifier for one row,
  \<open>clf.predict(np.asarray(row.centers).reshape(1, 2))[0]\<close>: the predicted type of the
  feature's representative point.\<close>

definition query_row :: "'m lib \<Rightarrow> 'm \<Rightarrow> (string \<times> cell) list \<Rightarrow> error + cell" where
  "query_row L clf row =
     (case getattr_row ''centers'' row of
        Inl e \<Rightarrow> Inl e
      | Inr c \<Rightarrow>
          (case reshape_1_2 L c of
             Inl e \<Rightarrow> Inl e
           | Inr latlon \<Rightarrow>
               (case predict L clf [latlon] of
                  Inl e \<Rightarrow> Inl e
                | Inr p \<Rightarrow> index0 p)))"

text \<open>\<open>geojson_predict_k(geo_df, gen_train, stor_train, k, weights)\<close>, lines 231 to 242.\<close>

definition geojson_predict_k ::
  "'m lib \<Rightarrow> nat \<Rightarrow> nat \<Rightarrow> nat \<Rightarrow> int \<Rightarrow> string \<Rightarrow> unit prog" where
  "geojson_predict_k L geo_df gen_train stor_train k weights =
     bnd (fit_on L k weights gen_train) (\<lambda>gen_clf.
     bnd (fit_on L k weights stor_train) (\<lambda>stor_clf.
     bnd (read_df geo_df) (\<lambda>df.
     bnd (predict_centers L gen_clf stor_clf (iterrows df) [] []) (\<lambda>(gens, stors).
     bnd (assign_col geo_df ''pred_gen'' gens) (\<lambda>_.
     assign_col geo_df ''pred_stor'' stors)))))"

text \<open>
  The rest of the \<open>ela\<close> package and folium are not among the sources; \<open>prediction_map_k\<close>
  takes them as a parameter: the parser \<open>ela.geojson_to_df\<close>, \<open>ela.geojson_centers\<close> (which
  changes the table it is given), the two global training tables, the two colour
  look-ups and the constructor \<open>folium.GeoJson\<close>, which receives the source and the style
  function.
\<close>

record style =
  fillColor :: string
  fillOpacity :: rat
  weight :: int

record ('g, 'l) ela =
  geojson_to_df :: "'g \<Rightarrow> error + dataframe"
  geojson_centers :: "dataframe \<Rightarrow> error + dataframe"
  gen_data :: nat
  stor_data :: nat
  pred_gen_to_colors :: "dataframe \<Rightarrow> error + (string \<times> string) list"
  pred_stor_to_colors :: "dataframe \<Rightarrow> error + (string \<times> string) list"
  GeoJson :: "'g \<Rightarrow> (string \<Rightarrow> error + style) \<Rightarrow> error + 'l"

text \<open>The style function of lines 290 to 292, \<open>map_colors[feature['id']]\<close> with opacity 0.4
  and weight 0.\<close>

definition style_function :: "(string \<times> string) list \<Rightarrow> string \<Rightarrow> error + style" where
  "style_function map_colors feature_id =
     (case map_of map_colors feature_id of
        None \<Rightarrow> Inl (KeyError [feature_id])
      | Some c \<Rightarrow> Inr \<lparr>fillColor = c, fillOpacity = 2 / 5, weight = 0\<rparr>)"

text \<open>Lines 278 and 279: \<open>geo_df = ela.geojson_to_df(geoj)\<close> makes a new table and
  \<open>ela.geojson_centers(geo_df)\<close> changes it in place.\<close>

definition load_geo :: "('g, 'l) ela \<Rightarrow> 'g \<Rightarrow> nat prog" where
  "load_geo E geoj =
     bnd (emit GeoParse) (\<lambda>_.
     bnd (lift (geojson_to_df E geoj)) (\<lambda>parsed.
     bnd (alloc parsed) (\<lambda>geo_df.
     bnd (emit GeoCenters) (\<lambda>_.
     bnd (read_df geo_df) (\<lambda>df.
     bnd (lift (geojson_centers E df)) (\<lambda>df'.
     bnd (write_df geo_df df') (\<lambda>_.
     ret geo_df)))))))"

text \<open>\<open>prediction_map_k(geoj, k, weights, gen_or_stor)\<close>, lines 278 to 292.\<close>

definition prediction_map_k ::
  "'m lib \<Rightarrow> ('g, 'l) ela \<Rightarrow> 'g \<Rightarrow> int \<Rightarrow> string \<Rightarrow> string \<Rightarrow> 'l prog" where
  "prediction_map_k L E geoj k weights gen_or_stor =
     bnd (load_geo E geoj) (\<lambda>geo_df.
     bnd (geojson_predict_k L geo_df (gen_data E) (stor_data E) k weights) (\<lambda>_.
     bnd (if gen_or_stor = ''gen'' then
            bnd (emit (Colors ''gen'')) (\<lambda>_.
            bnd (read_df geo_df) (\<lambda>df. lift (pred_gen_to_colors E df)))
          else if gen_or_stor = ''stor'' then
            bnd (emit (Colors ''stor'')) (\<lambda>_.
            bnd (read_df geo_df) (\<lambda>df. lift (pred_stor_to_colors E df)))
          else raise (ValueError ''Enter either 'gen' or 'stor'.'')) (\<lambda>map_colors.
     bnd (emit Render) (\<lambda>_.
     lift (GeoJson E geoj (style_function map_colors))))))"

section \<open>Reading the event log\<close>

text \<open>The classifiers fitted during a run, in order: the \<open>(n_neighbors, weights)\<close> of every
  \<open>Fit\<close> event.\<close>

fun fits :: "event list \<Rightarrow> (int \<times> string) list" where
  "fits [] = []"
| "fits (Fit k w X y # es) = (k, w) # fits es"
| "fits (e # es) = fits es"

text \<open>The horizontal coordinates of every scatter series drawn, in order.\<close>

fun scatter_xs :: "event list \<Rightarrow> rat list list" where
  "scatter_xs [] = []"
| "scatter_xs (Plot (Scatter xs ys c l) # es) = xs # scatter_xs es"
| "scatter_xs (e # es) = scatter_xs es"

text \<open>The colour look-ups and renderings of a run.\<close>

fun drawn :: "event list \<Rightarrow> event list" where
  "drawn [] = []"
| "drawn (Colors c # es) = Colors c # drawn es"
| "drawn (Render # es) = Render # drawn es"
| "drawn (e # es) = drawn es"

section \<open>A runnable instance of the collaborators\<close>

text \<open>A one-nearest-neighbour classifier on numeric coordinates (squared Euclidean
  distance, the first of equally near points), which accepts \<open>1 \<le> k \<le> n\<close> as the
  service does, and a minimal geographic back end. They are used to run the functions
  on concrete tables.\<close>

fun sq_dist :: "cell list \<Rightarrow> cell list \<Rightarrow> rat" where
  "sq_dist (Num a # xs) (Num b # ys) = (a - b) * (a - b) + sq_dist xs ys"
| "sq_dist _ _ = 0"

fun nearest :: "(cell list \<times> cell) list \<Rightarrow> cell list \<Rightarrow> cell" where
  "nearest [] q = Str []"
| "nearest [(x, l)] q = l"
| "nearest ((x, l) # (x', l') # rest) q =
     (if sq_dist x q \<le> sq_dist x' q then nearest ((x, l) # rest) q
      else nearest ((x', l') # rest) q)"

definition nn_lib :: "((cell list \<times> cell) list) lib" where
  "nn_lib = \<lparr>
     fit = (\<lambda>k w X y.
       if 1 \<le> k \<and> k \<le> int (length X) \<and> length X = length y
       then Inr (zip X y)
       else Inl (ValueError ''bad n_neighbors or sample'')),
     predict = (\<lambda>m X.
       if X = [] then Inl (ValueError ''no sample'') else Inr (map (nearest m) X)),
     reshape_1_2 = (\<lambda>c.
       case c of Tup [a, b] \<Rightarrow> Inr [a, b] | _ \<Rightarrow> Inl (ValueError ''cannot reshape'')) \<rparr>"

definition table :: "(rat \<times> rat \<times> string) list \<Rightarrow> dataframe" where
  "table rows = \<lparr>
     nrows = length rows,
     columns = [(''lat'', map (\<lambda>(a, b, t). Num a) rows),
                (''lon'', map (\<lambda>(a, b, t). Num b) rows),
                (''type'', map (\<lambda>(a, b, t). Str t) rows)],
     is_copy = True \<rparr>"

definition world0 :: world where
  "world0 = \<lparr>
     heap = (\<lambda>_. table [])
       (0 := table [(0, 0, ''A''), (0, 1, ''A''), (5, 5, ''B''), (6, 5, ''B'')],
        1 := table [(0, 0, ''A''), (4, 4, ''A'')],
        2 := table [(1, 1, ''Coal''), (9, 9, ''Wind'')],
        3 := table [(1, 1, ''Battery''), (9, 9, ''Hydro'')],
        4 := \<lparr>nrows = 2,
              columns = [(''id'', [Str ''WA'', Str ''NY'']),
                         (''centers'', [Tup [Num 1, Num 2], Tup [Num 8, Num 8]])],
              is_copy = False\<rparr>),
     next_ref = 5,
     trace = [] \<rparr>"

text \<open>The geographic source is a list of (feature id, centre); parsing gives one row per
  feature, \<open>geojson_centers\<close> adds the \<open>centers\<close> column.\<close>

definition demo_ela :: "((string \<times> rat \<times> rat) list, (string \<times> style) list) ela" where
  "demo_ela = \<lparr>
     geojson_to_df = (\<lambda>g. Inr \<lparr>nrows = length g,
        columns = [(''id'', map (\<lambda>(i, a, b). Str i) g),
                   (''polygon'', map (\<lambda>(i, a, b). Tup [Num a, Num b]) g)],
        is_copy = False\<rparr>),
     geojson_centers = (\<lambda>df. case getattr_col ''polygon'' df of
        Inl e \<Rightarrow> Inl e | Inr c \<Rightarrow> setitem ''centers'' c df),
     gen_data = 2,
     stor_data = 3,
     pred_gen_to_colors = (\<lambda>df. Inr []),
     pred_stor_to_colors = (\<lambda>df. Inr []),
     GeoJson = (\<lambda>g f. Inr []) \<rparr>"

section \<open>Basic laws of the state and exception plumbing\<close>

lemma bnd_lift: "bnd (lift r) f w = (case r of Inl e \<Rightarrow> (Inl e, w) | Inr x \<Rightarrow> f x w)"
  by (simp add: bnd_def lift_def split: sum.splits)

lemma bnd_emit: "bnd (emit e) f w = f () (w\<lparr>trace := trace w @ [e]\<rparr>)"
  by (simp add: bnd_def emit_def)

lemma bnd_read_df: "bnd (read_df r) f w = f (heap w r) w"
  by (simp add: bnd_def read_df_def)

lemma bnd_write_df: "bnd (write_df r df) f w = f () (w\<lparr>heap := (heap w)(r := df)\<rparr>)"
  by (simp add: bnd_def write_df_def)

lemma fits_append: "fits (xs @ ys) = fits xs @ fits ys"
  by (induction xs rule: fits.induct) simp_all

section \<open>try_k\<close>

lemma try_k_world:
  "snd (try_k L k weights train_df test_df w) = w \<or>
   (\<exists>X y. snd (try_k L k weights train_df test_df w) = w\<lparr>trace := trace w @ [Fit k weights X y]\<rparr>)"
  unfolding try_k_def
  by (auto simp: bnd_read_df bnd_lift bnd_emit ret_def split: sum.splits)

lemma try_k_Inr_world:
  "try_k L k weights train_df test_df w = (Inr r, w') \<Longrightarrow>
   \<exists>X y. w' = w\<lparr>trace := trace w @ [Fit k weights X y]\<rparr>"
  unfolding try_k_def
  by (auto simp: bnd_read_df bnd_lift bnd_emit ret_def split: sum.splits)

lemma try_k_Inr_fits:
  "try_k L k weights train_df test_df w = (Inr r, w') \<Longrightarrow>
   fits (trace w') = fits (trace w) @ [(k, weights)] \<and> heap w' = heap w"
  by (drule try_k_Inr_world) (auto simp: fits_append)

lemma try_k_fst_heap:
  "heap w1 = heap w2 \<Longrightarrow>
   fst (try_k L k weights train_df test_df w1) = fst (try_k L k weights train_df test_df w2)"
  unfolding try_k_def
  by (auto simp: bnd_read_df bnd_lift bnd_emit ret_def split: sum.splits)

text \<open>
  Claim C5. \<open>try_k\<close> has no side effect on its input tables: after every call, successful
  or not, the heap of tables is what it was, so \<open>train_df\<close> and \<open>test_df\<close> (and every other
  table) keep all their columns and gain no \<open>pred\<close> column.
\<close>

theorem C5_try_k_keeps_tables:
  "heap (snd (try_k L k weights train_df test_df w)) = heap w"
  using try_k_world [of L k weights train_df test_df w] by auto

theorem C5_try_k_keeps_tables_witness:
  "heap (snd (try_k nn_lib 1 ''uniform'' 0 1 world0)) = heap world0"
  by (rule C5_try_k_keeps_tables)



lemma w0_train_X: "lat_lon (heap world0 0)
    = Inr [[Num 0, Num 0], [Num 0, Num 1], [Num 5, Num 5], [Num 6, Num 5]]"
  by code_simp
lemma w0_train_y: "getattr_col ''type'' (heap world0 0) = Inr [Str ''A'', Str ''A'', Str ''B'', Str ''B'']"
  by code_simp
lemma w0_test_X: "lat_lon (heap world0 1) = Inr [[Num 0, Num 0], [Num 4, Num 4]]"
  by code_simp
lemma nn_fit_train: "fit nn_lib 1 ''uniform''
     [[Num 0, Num 0], [Num 0, Num 1], [Num 5, Num 5], [Num 6, Num 5]]
     [Str ''A'', Str ''A'', Str ''B'', Str ''B'']
   = Inr [([Num 0, Num 0], Str ''A''), ([Num 0, Num 1], Str ''A''),
          ([Num 5, Num 5], Str ''B''), ([Num 6, Num 5], Str ''B'')]"
  by code_simp
lemma nn_predict_train: "predict nn_lib
     [([Num 0, Num 0], Str ''A''), ([Num 0, Num 1], Str ''A''),
      ([Num 5, Num 5], Str ''B''), ([Num 6, Num 5], Str ''B'')]
     [[Num 0, Num 0], [Num 0, Num 1], [Num 5, Num 5], [Num 6, Num 5]]
   = Inr [Str ''A'', Str ''A'', Str ''B'', Str ''B'']"
  by code_simp
lemma nn_predict_test: "predict nn_lib
     [([Num 0, Num 0], Str ''A''), ([Num 0, Num 1], Str ''A''),
      ([Num 5, Num 5], Str ''B''), ([Num 6, Num 5], Str ''B'')]
     [[Num 0, Num 0], [Num 4, Num 4]]
   = Inr [Str ''A'', Str ''B'']"
  by code_simp


section \<open>try_k_range\<close>

text \<open>The loop invariant: rows outside the indices still to visit are untouched, each
  visited row holds its K and what \<open>try_k\<close> returns for it, and every visit fits one
  classifier.\<close>

lemma try_k_range_loop_inv:
  "try_k_range_loop L ks weights train_df test_df idx errors w = (Inr res, w') \<Longrightarrow>
   length res = length errors \<and>
   (\<forall>j. j \<notin> set idx \<longrightarrow> res ! j = errors ! j) \<and>
   (\<forall>j \<in> set idx. j < length errors \<longrightarrow>
      fst (res ! j) = of_int (ks ! j) \<and>
      fst (try_k L (ks ! j) weights train_df test_df w) = Inr (snd (res ! j))) \<and>
   fits (trace w') = fits (trace w) @ map (\<lambda>i. (ks ! i, weights)) idx \<and>
   heap w' = heap w"
proof (induction idx arbitrary: errors w)
  case Nil
  then show ?case by (simp add: ret_def)
next
  case (Cons i rest)
  from Cons.prems obtain r w1 where
    step: "try_k L (ks ! i) weights train_df test_df w = (Inr r, w1)" and
    rec: "try_k_range_loop L ks weights train_df test_df rest
            (errors[i := (of_int (ks ! i), fst r, snd r)]) w1 = (Inr res, w')"
    by (auto simp: bnd_def split: prod.splits sum.splits)
  note ih = Cons.IH [OF rec]
  from try_k_Inr_fits [OF step] have
    f1: "fits (trace w1) = fits (trace w) @ [(ks ! i, weights)]" and h1: "heap w1 = heap w"
    by simp_all
  have val: "fst (try_k L k weights train_df test_df w1) = fst (try_k L k weights train_df test_df w)" for k
    by (rule try_k_fst_heap [OF h1])
  have a: "length res = length errors" using ih by simp
  have b: "res ! j = errors ! j" if "j \<notin> set (i # rest)" for j
    using ih that by simp
  have c: "fst (res ! j) = of_int (ks ! j) \<and>
           fst (try_k L (ks ! j) weights train_df test_df w) = Inr (snd (res ! j))"
    if "j \<in> set (i # rest)" "j < length errors" for j
  proof (cases "j \<in> set rest")
    case True
    with ih that show ?thesis by (simp add: val)
  next
    case False
    with that have ji: "j = i" by simp
    from ih False have "res ! j = (errors[i := (of_int (ks ! i), fst r, snd r)]) ! j" by simp
    with ji that step show ?thesis by simp
  qed
  have d: "fits (trace w') = fits (trace w) @ map (\<lambda>i. (ks ! i, weights)) (i # rest)"
    using ih f1 by simp
  have e: "heap w' = heap w" using ih h1 by simp
  from a b c d e show ?case by blast
qed

lemma try_k_range_rows:
  assumes "try_k_range L ks weights train_df test_df w = (Inr errors, w')"
  shows "length errors = length ks \<and>
         map fst errors = map of_int ks \<and>
         (\<forall>j < length ks.
            fst (try_k L (ks ! j) weights train_df test_df w) = Inr (snd (errors ! j))) \<and>
         fits (trace w') = fits (trace w) @ map (\<lambda>k. (k, weights)) ks"
proof -
  note inv = try_k_range_loop_inv [OF assms [unfolded try_k_range_def]]
  have len: "length errors = length ks" using inv by simp
  have col: "map fst errors = map of_int ks"
    by (rule nth_equalityI) (use inv len in auto)
  have "map (\<lambda>i. (ks ! i, weights)) [0..<length ks] = map (\<lambda>k. (k, weights)) ks"
    by (rule nth_equalityI) auto
  with inv len col show ?thesis by auto
qed

text \<open>
  Claim C3. When \<open>try_k_range\<close> returns a table for the K values \<open>ks = [k1, ..., kn]\<close>, the
  table has exactly \<open>n\<close> rows, its first column is \<open>ks\<close> in the same order, row \<open>j\<close> holds
  the two errors \<open>try_k\<close> gives for \<open>ks ! j\<close>, and the run fitted one classifier per
  occurrence of a K, in the order of \<open>ks\<close> (a repeated K is evaluated again).
\<close>

theorem C3_try_k_range_rows:
  assumes "try_k_range L ks weights train_df test_df w = (Inr errors, w')"
  shows "length errors = length ks \<and>
         map fst errors = map of_int ks \<and>
         (\<forall>j < length ks.
            fst (try_k L (ks ! j) weights train_df test_df w) = Inr (snd (errors ! j))) \<and>
         fits (trace w') = fits (trace w) @ map (\<lambda>k. (k, weights)) ks"
  using assms by (rule try_k_range_rows)

lemma run_try_k_range_212:
  "fst (try_k_range nn_lib [2, 1, 2] ''uniform'' 0 1 world0)
     = Inr [(2, 0, 1 / 2), (1, 0, 1 / 2), (2, 0, 1 / 2)]"
  by code_simp

theorem C3_try_k_range_rows_witness:
  "fst (try_k_range nn_lib [2, 1, 2] ''uniform'' 0 1 world0)
     = Inr [(2, 0, 1 / 2), (1, 0, 1 / 2), (2, 0, 1 / 2)] \<and>
   fits (trace (snd (try_k_range nn_lib [2, 1, 2] ''uniform'' 0 1 world0)))
     = [(2, ''uniform''), (1, ''uniform''), (2, ''uniform'')]"
proof -
  have h: "try_k_range nn_lib [2, 1, 2] ''uniform'' 0 1 world0
      = (Inr [(2, 0, 1 / 2), (1, 0, 1 / 2), (2, 0, 1 / 2)],
         snd (try_k_range nn_lib [2, 1, 2] ''uniform'' 0 1 world0))"
    using run_try_k_range_212
    by (cases "try_k_range nn_lib [2, 1, 2] ''uniform'' 0 1 world0") simp
  have t: "trace world0 = []" by (simp add: world0_def)
  from C3_try_k_range_rows [OF h] t run_try_k_range_212 show ?thesis by simp
qed

text \<open>
  Claim C10. For the empty K list \<open>try_k_range\<close> returns the empty error table (no row;
  a row is a triple, so the three columns are in the type) and leaves the world as it
  was: no classifier is fitted (the event log is unchanged) and no table is touched.
\<close>

theorem C10_try_k_range_empty:
  "try_k_range L [] weights train_df test_df w = (Inr [], w)"
  by (simp add: try_k_range_def ret_def)

theorem C10_try_k_range_empty_witness:
  "try_k_range nn_lib [] ''uniform'' 0 1 world0 = (Inr [], world0)"
  by (rule C10_try_k_range_empty)

section \<open>plot_knn_error\<close>

lemma scatter_xs_append: "scatter_xs (xs @ ys) = scatter_xs xs @ scatter_xs ys"
  by (induction xs rule: scatter_xs.induct) simp_all

lemma try_k_fits_any:
  "\<exists>b. fits (trace (snd (try_k L k weights train_df test_df w)))
        = fits (trace w) @ take b [(k, weights)]"
proof -
  from try_k_world [of L k weights train_df test_df w]
  consider "snd (try_k L k weights train_df test_df w) = w"
    | X y where "snd (try_k L k weights train_df test_df w) = w\<lparr>trace := trace w @ [Fit k weights X y]\<rparr>"
    by blast
  then show ?thesis
  proof cases
    case 1
    then have "fits (trace (snd (try_k L k weights train_df test_df w)))
        = fits (trace w) @ take 0 [(k, weights)]" by simp
    then show ?thesis by blast
  next
    case 2
    then have "fits (trace (snd (try_k L k weights train_df test_df w)))
        = fits (trace w) @ take 1 [(k, weights)]" by (simp add: fits_append)
    then show ?thesis by blast
  qed
qed

lemma try_k_range_loop_prefix:
  "\<exists>n. fits (trace (snd (try_k_range_loop L ks weights train_df test_df idx errors w)))
        = fits (trace w) @ map (\<lambda>i. (ks ! i, weights)) (take n idx)"
proof (induction idx arbitrary: errors w)
  case Nil
  then show ?case by (simp add: ret_def)
next
  case (Cons i rest)
  obtain r w1 where step: "try_k L (ks ! i) weights train_df test_df w = (r, w1)"
    by (cases "try_k L (ks ! i) weights train_df test_df w")
  show ?case
  proof (cases r)
    case (Inl e)
    from try_k_fits_any [of L "ks ! i" weights train_df test_df w] step
    obtain b where b: "fits (trace w1) = fits (trace w) @ take b [(ks ! i, weights)]" by auto
    have "take b [(ks ! i, weights)] = map (\<lambda>i. (ks ! i, weights)) (take (min b 1) (i # rest))"
      by (cases b) simp_all
    with b have "fits (trace w1)
        = fits (trace w) @ map (\<lambda>i. (ks ! i, weights)) (take (min b 1) (i # rest))" by simp
    moreover have "snd (try_k_range_loop L ks weights train_df test_df (i # rest) errors w) = w1"
      using step Inl by (simp add: bnd_def)
    ultimately show ?thesis by metis
  next
    case (Inr v)
    from try_k_Inr_fits [of L "ks ! i" weights train_df test_df w v w1] step Inr
    have f1: "fits (trace w1) = fits (trace w) @ [(ks ! i, weights)]" by simp
    from Cons.IH [of "errors[i := (of_int (ks ! i), fst v, snd v)]" w1]
    obtain n where n: "fits (trace (snd (try_k_range_loop L ks weights train_df test_df rest
         (errors[i := (of_int (ks ! i), fst v, snd v)]) w1)))
        = fits (trace w1) @ map (\<lambda>i. (ks ! i, weights)) (take n rest)" by blast
    have "fits (trace (snd (try_k_range_loop L ks weights train_df test_df (i # rest) errors w)))
        = fits (trace w) @ map (\<lambda>i. (ks ! i, weights)) (take (Suc n) (i # rest))"
      using n f1 step Inr by (simp add: bnd_def)
    then show ?thesis by blast
  qed
qed

lemma try_k_scatter:
  "scatter_xs (trace (snd (try_k L k weights train_df test_df w))) = scatter_xs (trace w)"
  using try_k_world [of L k weights train_df test_df w] by (auto simp: scatter_xs_append)

lemma try_k_range_loop_scatter:
  "scatter_xs (trace (snd (try_k_range_loop L ks weights train_df test_df idx errors w)))
     = scatter_xs (trace w)"
proof (induction idx arbitrary: errors w)
  case Nil
  then show ?case by (simp add: ret_def)
next
  case (Cons i rest)
  obtain r w1 where step: "try_k L (ks ! i) weights train_df test_df w = (r, w1)"
    by (cases "try_k L (ks ! i) weights train_df test_df w")
  with try_k_scatter [of L "ks ! i" weights train_df test_df w]
  have s1: "scatter_xs (trace w1) = scatter_xs (trace w)" by simp
  show ?case
  proof (cases r)
    case (Inl e)
    with step s1 show ?thesis by (simp add: bnd_def)
  next
    case (Inr v)
    with step s1 Cons.IH [of "errors[i := (of_int (ks ! i), fst v, snd v)]" w1]
    show ?thesis by (simp add: bnd_def)
  qed
qed

lemma try_k_range_scatter:
  "scatter_xs (trace (snd (try_k_range L ks weights train_df test_df w))) = scatter_xs (trace w)"
  unfolding try_k_range_def by (rule try_k_range_loop_scatter)

lemma try_k_range_prefix:
  "\<exists>n. fits (trace (snd (try_k_range L ks weights train_df test_df w)))
        = fits (trace w) @ map (\<lambda>k. (k, weights)) (take n ks)"
proof -
  from try_k_range_loop_prefix [of L ks weights train_df test_df "[0..<length ks]" _ w]
  obtain n where n: "fits (trace (snd (try_k_range L ks weights train_df test_df w)))
        = fits (trace w) @ map (\<lambda>i. (ks ! i, weights)) (take n [0..<length ks])"
    unfolding try_k_range_def by blast
  have "map (\<lambda>i. (ks ! i, weights)) (take n [0..<length ks]) = map (\<lambda>k. (k, weights)) (take n ks)"
    by (rule nth_equalityI) auto
  with n show ?thesis by auto
qed

lemma plot_knn_error_split:
  "plot_knn_error L k_max weights train_df test_df w =
     (case try_k_range L [1..k_max - 1] weights train_df test_df w of
        (Inl e, w1) \<Rightarrow> (Inl e, w1)
      | (Inr result, w1) \<Rightarrow>
          (Inr (), w1\<lparr>trace := trace w1 @
             [Plot (Figure 4 4),
              Plot (Scatter (map fst result) (map (fst \<circ> snd) result) ''red'' ''Training error''),
              Plot (Scatter (map fst result) (map (snd \<circ> snd) result) ''blue'' ''Testing error''),
              Plot (XLabel ''K''), Plot (YLabel ''Error rate''), Plot (YLim 0 1),
              Plot (XLim 0 (k_max + 1)), Plot Legend]\<rparr>))"
  unfolding plot_knn_error_def
  by (simp add: bnd_def [of "try_k_range L [1..k_max - 1] weights train_df test_df"] bnd_emit emit_def
      split: prod.splits sum.splits)

text \<open>
  Claim C2. \<open>plot_knn_error\<close> evaluates the K values \<open>1, 2, ..., k_max - 1\<close> in ascending
  order and never \<open>k_max\<close>: in every run the classifiers fitted are those of an initial
  segment of \<open>[1..k_max - 1]\<close>, and in a run that returns they are exactly those of
  \<open>[1..k_max - 1]\<close>, both scatter series are drawn against \<open>[1..k_max - 1]\<close>, and the
  number of points is \<open>k_max - 1\<close> (4 for \<open>k_max = 5\<close>).
\<close>

theorem C2_plot_knn_error_range:
  "(\<exists>n. fits (trace (snd (plot_knn_error L k_max weights train_df test_df w)))
         = fits (trace w) @ map (\<lambda>k. (k, weights)) (take n [1..k_max - 1])) \<and>
   (fst (plot_knn_error L k_max weights train_df test_df w) = Inr () \<longrightarrow>
      fits (trace (snd (plot_knn_error L k_max weights train_df test_df w)))
         = fits (trace w) @ map (\<lambda>k. (k, weights)) [1..k_max - 1] \<and>
      scatter_xs (trace (snd (plot_knn_error L k_max weights train_df test_df w)))
         = scatter_xs (trace w) @ [map of_int [1..k_max - 1], map of_int [1..k_max - 1]] \<and>
      length [1..k_max - 1] = nat (k_max - 1))"
proof -
  obtain r w1 where run: "try_k_range L [1..k_max - 1] weights train_df test_df w = (r, w1)"
    by (cases "try_k_range L [1..k_max - 1] weights train_df test_df w")
  from try_k_range_prefix [of L "[1..k_max - 1]" weights train_df test_df w] run
  obtain n where n: "fits (trace w1) = fits (trace w) @ map (\<lambda>k. (k, weights)) (take n [1..k_max - 1])"
    by auto
  have keep: "fits (trace (snd (plot_knn_error L k_max weights train_df test_df w))) = fits (trace w1)"
    using run by (cases r) (simp_all add: plot_knn_error_split fits_append)
  from keep n have prefix:
    "\<exists>n. fits (trace (snd (plot_knn_error L k_max weights train_df test_df w)))
         = fits (trace w) @ map (\<lambda>k. (k, weights)) (take n [1..k_max - 1])"
    by auto
  have full: "fits (trace (snd (plot_knn_error L k_max weights train_df test_df w)))
         = fits (trace w) @ map (\<lambda>k. (k, weights)) [1..k_max - 1] \<and>
      scatter_xs (trace (snd (plot_knn_error L k_max weights train_df test_df w)))
         = scatter_xs (trace w) @ [map of_int [1..k_max - 1], map of_int [1..k_max - 1]] \<and>
      length [1..k_max - 1] = nat (k_max - 1)"
    if ok: "fst (plot_knn_error L k_max weights train_df test_df w) = Inr ()"
  proof -
    from ok run obtain result where r: "r = Inr result"
      by (cases r) (simp_all add: plot_knn_error_split)
    note inv = try_k_range_rows [OF run [unfolded r]]
    have sc: "scatter_xs (trace w1) = scatter_xs (trace w)"
      using try_k_range_scatter [of L "[1..k_max - 1]" weights train_df test_df w] run
      by simp
    from inv keep have a: "fits (trace (snd (plot_knn_error L k_max weights train_df test_df w)))
         = fits (trace w) @ map (\<lambda>k. (k, weights)) [1..k_max - 1]" by simp
    from inv sc run r have b: "scatter_xs (trace (snd (plot_knn_error L k_max weights train_df test_df w)))
         = scatter_xs (trace w) @ [map of_int [1..k_max - 1], map of_int [1..k_max - 1]]"
      by (simp add: plot_knn_error_split scatter_xs_append)
    have c: "length [1..k_max - 1] = nat (k_max - 1)" by simp
    from a b c show ?thesis by blast
  qed
  from prefix full show ?thesis by blast
qed

lemma run_plot_5: "fst (plot_knn_error nn_lib 5 ''uniform'' 0 1 world0) = Inr ()"
  by code_simp

lemma upto_1_4: "[1..(4::int)] = [1, 2, 3, 4]"
  by code_simp

theorem C2_plot_knn_error_range_witness:
  "fst (plot_knn_error nn_lib 5 ''uniform'' 0 1 world0) = Inr () \<and>
   fits (trace (snd (plot_knn_error nn_lib 5 ''uniform'' 0 1 world0)))
     = [(1, ''uniform''), (2, ''uniform''), (3, ''uniform''), (4, ''uniform'')] \<and>
   scatter_xs (trace (snd (plot_knn_error nn_lib 5 ''uniform'' 0 1 world0)))
     = [[1, 2, 3, 4], [1, 2, 3, 4]]"
proof -
  have t: "trace world0 = []" by (simp add: world0_def)
  from C2_plot_knn_error_range [of nn_lib 5 "''uniform''" 0 1 world0] run_plot_5
  have "fits (trace (snd (plot_knn_error nn_lib 5 ''uniform'' 0 1 world0)))
          = fits (trace world0) @ map (\<lambda>k. (k, ''uniform'')) [1..5 - 1] \<and>
        scatter_xs (trace (snd (plot_knn_error nn_lib 5 ''uniform'' 0 1 world0)))
          = scatter_xs (trace world0) @ [map of_int [1..5 - 1], map of_int [1..5 - 1]]"
    by blast
  with t run_plot_5 show ?thesis by (simp add: upto_1_4)
qed

section \<open>predict_types\<close>

lemma bnd_assoc: "bnd (bnd m f) g = bnd m (\<lambda>x. bnd (f x) g)"
  by (rule ext) (simp add: bnd_def split: prod.splits sum.splits)

lemma map_of_update_other:
  "n \<noteq> name \<Longrightarrow> map_of (AList.update name v al) n = map_of al n"
  by (simp add: update_conv')

lemma map_of_update_same: "map_of (AList.update name v al) name = Some v"
  by (simp add: update_conv')

lemma getitem_cols_update:
  assumes "name \<notin> set names"
  shows "getitem_cols names (AList.update name v cols) = getitem_cols names cols"
proof -
  have a: "map_of (AList.update name v cols) n = map_of cols n" if "n \<in> set names" for n
  proof -
    from that assms have "n \<noteq> name" by blast
    then show ?thesis by (rule map_of_update_other)
  qed
  have f: "filter (\<lambda>n. map_of (AList.update name v cols) n = None) names
      = filter (\<lambda>n. map_of cols n = None) names"
    by (rule filter_cong) (simp_all add: a)
  have m: "map (\<lambda>n. the (map_of (AList.update name v cols) n)) names
      = map (\<lambda>n. the (map_of cols n)) names"
    by (rule map_cong) (simp_all add: a)
  show ?thesis unfolding getitem_cols_def f m ..
qed

lemma getitem_lat_lon_pred:
  "getitem_cols [''lat'', ''lon''] (AList.update ''pred'' v cols) = getitem_cols [''lat'', ''lon''] cols"
  by (rule getitem_cols_update) simp

lemma assign_pred_run:
  "assign_pred L clf r w =
     (case lat_lon (heap w r) of Inl e \<Rightarrow> (Inl e, w) | Inr X \<Rightarrow>
      case predict L clf X of Inl e \<Rightarrow> (Inl e, w) | Inr p \<Rightarrow>
      case setitem ''pred'' p (heap w r) of Inl e \<Rightarrow> (Inl e, w) | Inr df \<Rightarrow>
        (Inr (), w\<lparr>heap := (heap w)(r := df)\<rparr>))"
  unfolding assign_pred_def predict_on_def assign_col_def
  by (simp add: bnd_assoc bnd_read_df bnd_lift write_df_def split: sum.splits)

lemma fit_on_run:
  "fit_on L k weights r w =
     (case lat_lon (heap w r) of Inl e \<Rightarrow> (Inl e, w) | Inr X \<Rightarrow>
      case getattr_col ''type'' (heap w r) of Inl e \<Rightarrow> (Inl e, w) | Inr y \<Rightarrow>
        (fit L k weights X y, w\<lparr>trace := trace w @ [Fit k weights X y]\<rparr>))"
  unfolding fit_on_def
  by (simp add: bnd_read_df bnd_lift bnd_emit lift_def split: sum.splits)

lemma set_is_copy_run:
  "bnd (set_is_copy r b) f w = f () (w\<lparr>heap := (heap w)(r := (heap w r)\<lparr>is_copy := b\<rparr>)\<rparr>)"
  unfolding set_is_copy_def by (simp add: bnd_assoc bnd_read_df bnd_write_df)

lemma predict_types_run:
  "predict_types L k weights train_df test_df w =
     (case fit_on L k weights train_df w of
        (Inl e, w1) \<Rightarrow> (Inl e, w1)
      | (Inr clf, w1) \<Rightarrow>
          (let w2 = w1\<lparr>heap := (heap w1)(train_df := (heap w1 train_df)\<lparr>is_copy := False\<rparr>)\<rparr>;
               w3 = w2\<lparr>heap := (heap w2)(test_df := (heap w2 test_df)\<lparr>is_copy := False\<rparr>)\<rparr>
           in case assign_pred L clf train_df w3 of
                (Inl e, w4) \<Rightarrow> (Inl e, w4)
              | (Inr u, w4) \<Rightarrow> assign_pred L clf test_df w4))"
  unfolding predict_types_def
  by (simp add: bnd_def [of "fit_on L k weights train_df"] set_is_copy_run
        bnd_def [of "assign_pred L clf train_df" for clf] Let_def
        split: prod.splits sum.splits)

lemmas pt_unfold = predict_types_run fit_on_run assign_pred_run Let_def lat_lon_def
  getattr_col_def setitem_def getitem_lat_lon_pred map_of_update_other map_of_update_same

text \<open>
  Claim C6. For tables the service accepts, \<open>predict_types\<close> fits one classifier on the
  training table's \<open>lat\<close>/\<open>lon\<close> columns against its \<open>type\<close> column and returns with a
  \<open>pred\<close> column in both tables, each holding the fitted classifier's prediction for
  that table's own coordinates. Nothing is assumed about an earlier \<open>pred\<close> column: one
  that exists is overwritten. The two references may name the same table.
\<close>

theorem C6_predict_types_columns:
  assumes "lat_lon (heap w train_df) = Inr x_train"
    and "getattr_col ''type'' (heap w train_df) = Inr y_train"
    and "fit L k weights x_train y_train = Inr clf"
    and "predict L clf x_train = Inr p_train"
    and "length p_train = nrows (heap w train_df)"
    and "lat_lon (heap w test_df) = Inr x_test"
    and "predict L clf x_test = Inr p_test"
    and "length p_test = nrows (heap w test_df)"
  shows "fst (predict_types L k weights train_df test_df w) = Inr () \<and>
         trace (snd (predict_types L k weights train_df test_df w))
           = trace w @ [Fit k weights x_train y_train] \<and>
         map_of (columns (heap (snd (predict_types L k weights train_df test_df w)) train_df)) ''pred''
           = Some p_train \<and>
         map_of (columns (heap (snd (predict_types L k weights train_df test_df w)) test_df)) ''pred''
           = Some p_test"
proof (cases "train_df = test_df")
  case True
  with assms show ?thesis
    by (simp add: pt_unfold)
next
  case False
  with assms show ?thesis
    by (simp add: pt_unfold)
qed

lemma w0_train_nrows: "nrows (heap world0 0) = 4"
  by code_simp

lemma w0_test_nrows: "nrows (heap world0 1) = 2"
  by code_simp

theorem C6_predict_types_columns_witness:
  "fst (predict_types nn_lib 1 ''uniform'' 0 1 world0) = Inr () \<and>
   map_of (columns (heap (snd (predict_types nn_lib 1 ''uniform'' 0 1 world0)) 0)) ''pred''
     = Some [Str ''A'', Str ''A'', Str ''B'', Str ''B''] \<and>
   map_of (columns (heap (snd (predict_types nn_lib 1 ''uniform'' 0 1 world0)) 1)) ''pred''
     = Some [Str ''A'', Str ''B'']"
proof -
  have n1: "length [Str ''A'', Str ''A'', Str ''B'', Str ''B''] = nrows (heap world0 0)"
    unfolding w0_train_nrows by simp
  have n2: "length [Str ''A'', Str ''B''] = nrows (heap world0 1)"
    unfolding w0_test_nrows by simp
  from C6_predict_types_columns [OF w0_train_X w0_train_y nn_fit_train nn_predict_train n1
      w0_test_X nn_predict_test n2]
  show ?thesis by blast
qed




text \<open>
  Claim C8. \<open>predict_types\<close> is idempotent: the classifier being a function of its
  inputs, calling it a second time with the same arguments gives the same outcome and
  leaves every table, in particular both \<open>pred\<close> columns, as the first call left it.
\<close>

theorem C8_predict_types_idempotent:
  "fst (predict_types L k weights train_df test_df
          (snd (predict_types L k weights train_df test_df w)))
     = fst (predict_types L k weights train_df test_df w) \<and>
   heap (snd (predict_types L k weights train_df test_df
          (snd (predict_types L k weights train_df test_df w))))
     = heap (snd (predict_types L k weights train_df test_df w))"
  by (auto simp: pt_unfold split: sum.splits)

theorem C8_predict_types_idempotent_witness:
  "fst (predict_types nn_lib 1 ''uniform'' 0 1
          (snd (predict_types nn_lib 1 ''uniform'' 0 1 world0)))
     = fst (predict_types nn_lib 1 ''uniform'' 0 1 world0) \<and>
   heap (snd (predict_types nn_lib 1 ''uniform'' 0 1
          (snd (predict_types nn_lib 1 ''uniform'' 0 1 world0))))
     = heap (snd (predict_types nn_lib 1 ''uniform'' 0 1 world0))"
  by (rule C8_predict_types_idempotent)

section \<open>geojson_predict_k\<close>

lemma predict_centers_world: "snd (predict_centers L g s rows gens stors w) = w"
  by (induction rows arbitrary: gens stors)
     (auto simp: ret_def bnd_lift split: sum.splits)

lemma predict_centers_ok:
  "map (query_row L g) rows = map Inr gs \<Longrightarrow>
   map (query_row L s) rows = map Inr ss \<Longrightarrow>
   predict_centers L g s rows gens stors w = (Inr (gens @ gs, stors @ ss), w)"
proof (induction rows arbitrary: gens stors gs ss)
  case Nil
  then show ?case by (simp add: ret_def)
next
  case (Cons row rows)
  from Cons.prems obtain g1 gs' s1 ss' where
    gs: "gs = g1 # gs'" and ss: "ss = s1 # ss'" and
    qg: "query_row L g row = Inr g1" and qs: "query_row L s row = Inr s1" and
    rg: "map (query_row L g) rows = map Inr gs'" and rs: "map (query_row L s) rows = map Inr ss'"
    by (cases gs; cases ss) auto
  from qg qs have
    "predict_centers L g s (row # rows) gens stors w
       = predict_centers L g s rows (gens @ [g1]) (stors @ [s1]) w"
    by (auto simp: query_row_def bnd_lift split: sum.splits)
  with Cons.IH [OF rg rs, of "gens @ [g1]" "stors @ [s1]"] gs ss show ?case by simp
qed

lemma assign_col_run:
  "bnd (assign_col r name v) f w =
     (case setitem name v (heap w r) of Inl e \<Rightarrow> (Inl e, w)
      | Inr df \<Rightarrow> f () (w\<lparr>heap := (heap w)(r := df)\<rparr>))"
  unfolding assign_col_def
  by (simp add: bnd_assoc bnd_read_df bnd_lift bnd_write_df split: sum.splits)

lemma assign_col_run':
  "assign_col r name v w =
     (case setitem name v (heap w r) of Inl e \<Rightarrow> (Inl e, w)
      | Inr df \<Rightarrow> (Inr (), w\<lparr>heap := (heap w)(r := df)\<rparr>))"
  unfolding assign_col_def
  by (simp add: bnd_read_df bnd_lift write_df_def split: sum.splits)

lemma geojson_predict_k_run:
  "geojson_predict_k L geo_df gen_train stor_train k weights w =
     (case fit_on L k weights gen_train w of
        (Inl e, w1) \<Rightarrow> (Inl e, w1)
      | (Inr g, w1) \<Rightarrow>
         (case fit_on L k weights stor_train w1 of
            (Inl e, w2) \<Rightarrow> (Inl e, w2)
          | (Inr s, w2) \<Rightarrow>
             (case fst (predict_centers L g s (iterrows (heap w2 geo_df)) [] [] w2) of
                Inl e \<Rightarrow> (Inl e, w2)
              | Inr (gens, stors) \<Rightarrow>
                 (case setitem ''pred_gen'' gens (heap w2 geo_df) of
                    Inl e \<Rightarrow> (Inl e, w2)
                  | Inr df \<Rightarrow>
                     (case setitem ''pred_stor'' stors df of
                        Inl e \<Rightarrow> (Inl e, w2\<lparr>heap := (heap w2)(geo_df := df)\<rparr>)
                      | Inr df' \<Rightarrow> (Inr (), w2\<lparr>heap := (heap w2)(geo_df := df')\<rparr>))))))"
proof -
  have pc: "bnd (predict_centers L g s rows [] []) f w2 =
      (case fst (predict_centers L g s rows [] [] w2) of
         Inl e \<Rightarrow> (Inl e, w2) | Inr x \<Rightarrow> f x w2)" for g s rows f w2
    using predict_centers_world [of L g s rows "[]" "[]" w2]
    by (cases "predict_centers L g s rows [] [] w2") (simp add: bnd_def split: sum.splits)
  show ?thesis
    unfolding geojson_predict_k_def
    by (simp add: bnd_def [of "fit_on L k weights r" for r] bnd_read_df pc
        assign_col_run assign_col_run' split: prod.splits sum.splits)
qed

text \<open>
  Claim C7. When both training tables give coordinates and labels, both fits succeed and
  every feature's representative point is classified by both classifiers,
  \<open>geojson_predict_k\<close> fits two classifiers, the first on the generation table and the
  second on the storage table, and returns with two columns \<open>pred_gen\<close> and \<open>pred_stor\<close>
  set in the feature table and nothing else changed: row \<open>i\<close> of each column is what
  that classifier predicts for the \<open>centers\<close> point of row \<open>i\<close>, so the columns have
  one entry per feature, in the order of the features.
\<close>

theorem C7_geojson_predict_k_columns:
  assumes "lat_lon (heap w gen_train) = Inr x_gen"
    and "getattr_col ''type'' (heap w gen_train) = Inr y_gen"
    and "fit L k weights x_gen y_gen = Inr gen_clf"
    and "lat_lon (heap w stor_train) = Inr x_stor"
    and "getattr_col ''type'' (heap w stor_train) = Inr y_stor"
    and "fit L k weights x_stor y_stor = Inr stor_clf"
    and "map (query_row L gen_clf) (iterrows (heap w geo_df)) = map Inr gens"
    and "map (query_row L stor_clf) (iterrows (heap w geo_df)) = map Inr stors"
  shows "geojson_predict_k L geo_df gen_train stor_train k weights w =
           (Inr (), w\<lparr>trace := trace w @ [Fit k weights x_gen y_gen, Fit k weights x_stor y_stor],
                      heap := (heap w)(geo_df := (heap w geo_df)\<lparr>columns :=
                        AList.update ''pred_stor'' stors
                          (AList.update ''pred_gen'' gens (columns (heap w geo_df)))\<rparr>)\<rparr>) \<and>
         length gens = nrows (heap w geo_df) \<and> length stors = nrows (heap w geo_df)"
proof -
  have lg: "length gens = nrows (heap w geo_df)"
    using arg_cong [OF assms(7), of length] by (simp add: iterrows_def)
  have ls: "length stors = nrows (heap w geo_df)"
    using arg_cong [OF assms(8), of length] by (simp add: iterrows_def)
  have pc: "predict_centers L gen_clf stor_clf (iterrows (heap w geo_df)) [] [] w' = (Inr (gens, stors), w')" for w'
    using predict_centers_ok [OF assms(7) assms(8), of "[]" "[]" w'] by simp
  show ?thesis
    using assms(1-6) lg ls
    by (simp add: geojson_predict_k_run fit_on_run pc setitem_def)
qed

lemma w0_gen_X: "lat_lon (heap world0 2) = Inr [[Num 1, Num 1], [Num 9, Num 9]]"
  by code_simp
lemma w0_gen_y: "getattr_col ''type'' (heap world0 2) = Inr [Str ''Coal'', Str ''Wind'']"
  by code_simp
lemma w0_stor_X: "lat_lon (heap world0 3) = Inr [[Num 1, Num 1], [Num 9, Num 9]]"
  by code_simp
lemma w0_stor_y: "getattr_col ''type'' (heap world0 3) = Inr [Str ''Battery'', Str ''Hydro'']"
  by code_simp
lemma nn_fit_gen: "fit nn_lib 1 ''uniform'' [[Num 1, Num 1], [Num 9, Num 9]] [Str ''Coal'', Str ''Wind'']
    = Inr [([Num 1, Num 1], Str ''Coal''), ([Num 9, Num 9], Str ''Wind'')]"
  by code_simp
lemma nn_fit_stor: "fit nn_lib 1 ''uniform'' [[Num 1, Num 1], [Num 9, Num 9]] [Str ''Battery'', Str ''Hydro'']
    = Inr [([Num 1, Num 1], Str ''Battery''), ([Num 9, Num 9], Str ''Hydro'')]"
  by code_simp
lemma w0_query_gen: "map (query_row nn_lib [([Num 1, Num 1], Str ''Coal''), ([Num 9, Num 9], Str ''Wind'')])
      (iterrows (heap world0 4)) = map Inr [Str ''Coal'', Str ''Wind'']"
  by code_simp
lemma w0_query_stor: "map (query_row nn_lib [([Num 1, Num 1], Str ''Battery''), ([Num 9, Num 9], Str ''Hydro'')])
      (iterrows (heap world0 4)) = map Inr [Str ''Battery'', Str ''Hydro'']"
  by code_simp

theorem C7_geojson_predict_k_columns_witness:
  "fst (geojson_predict_k nn_lib 4 2 3 1 ''uniform'' world0) = Inr () \<and>
   map_of (columns (heap (snd (geojson_predict_k nn_lib 4 2 3 1 ''uniform'' world0)) 4)) ''pred_gen''
     = Some [Str ''Coal'', Str ''Wind''] \<and>
   map_of (columns (heap (snd (geojson_predict_k nn_lib 4 2 3 1 ''uniform'' world0)) 4)) ''pred_stor''
     = Some [Str ''Battery'', Str ''Hydro'']"
  using C7_geojson_predict_k_columns [OF w0_gen_X w0_gen_y nn_fit_gen w0_stor_X w0_stor_y nn_fit_stor
      w0_query_gen w0_query_stor]
  by (simp add: map_of_update_other map_of_update_same)

section \<open>prediction_map_k\<close>

lemma drawn_append: "drawn (xs @ ys) = drawn xs @ drawn ys"
  by (induction xs rule: drawn.induct) simp_all

lemma fit_on_trace:
  "fit_on L k weights r w = (res, w') \<Longrightarrow>
   heap w' = heap w \<and> next_ref w' = next_ref w \<and> drawn (trace w') = drawn (trace w) \<and>
   (isl res \<or> fits (trace w') = fits (trace w) @ [(k, weights)])"
  by (auto simp: fit_on_run drawn_append fits_append split: sum.splits)

lemma geojson_predict_k_drawn:
  "drawn (trace (snd (geojson_predict_k L geo_df gen_train stor_train k weights w)))
     = drawn (trace w)"
proof -
  obtain r1 w1 where f1: "fit_on L k weights gen_train w = (r1, w1)"
    by (cases "fit_on L k weights gen_train w")
  obtain r2 w2 where f2: "fit_on L k weights stor_train w1 = (r2, w2)"
    by (cases "fit_on L k weights stor_train w1")
  from fit_on_trace [OF f1] fit_on_trace [OF f2]
  have d: "drawn (trace w1) = drawn (trace w)" "drawn (trace w2) = drawn (trace w)" by simp_all
  show ?thesis
    using f1 f2 d by (cases r1; cases r2) (auto simp: geojson_predict_k_run split: sum.splits)
qed

lemma geojson_predict_k_Inr_fits:
  assumes "fst (geojson_predict_k L geo_df gen_train stor_train k weights w) = Inr u"
  shows "fits (trace (snd (geojson_predict_k L geo_df gen_train stor_train k weights w)))
           = fits (trace w) @ [(k, weights), (k, weights)]"
proof -
  obtain r1 w1 where f1: "fit_on L k weights gen_train w = (r1, w1)"
    by (cases "fit_on L k weights gen_train w")
  obtain r2 w2 where f2: "fit_on L k weights stor_train w1 = (r2, w2)"
    by (cases "fit_on L k weights stor_train w1")
  from assms f1 obtain g where r1: "r1 = Inr g"
    by (cases r1) (auto simp: geojson_predict_k_run)
  from assms f1 f2 r1 obtain s where r2: "r2 = Inr s"
    by (cases r2) (auto simp: geojson_predict_k_run)
  from fit_on_trace [OF f1] fit_on_trace [OF f2] r1 r2
  have "fits (trace w2) = fits (trace w) @ [(k, weights), (k, weights)]" by simp
  then show ?thesis
    using f1 f2 r1 r2 by (auto simp: geojson_predict_k_run split: sum.splits)
qed

lemma load_geo_trace:
  "load_geo E geoj w = (r, w1) \<Longrightarrow>
   drawn (trace w1) = drawn (trace w) \<and> fits (trace w1) = fits (trace w) \<and>
   (\<not> isl r \<longrightarrow> trace w1 = trace w @ [GeoParse, GeoCenters])"
  unfolding load_geo_def
  by (auto simp: bnd_emit bnd_lift bnd_read_df bnd_write_df bnd_def [of "alloc x" for x]
        alloc_def ret_def drawn_append fits_append split: sum.splits)

lemma prediction_map_k_bad_kind:
  assumes "gen_or_stor \<noteq> ''gen''" and "gen_or_stor \<noteq> ''stor''"
  shows "prediction_map_k L E geoj k weights gen_or_stor w =
     (case load_geo E geoj w of
        (Inl e, w1) \<Rightarrow> (Inl e, w1)
      | (Inr geo_df, w1) \<Rightarrow>
         (case geojson_predict_k L geo_df (gen_data E) (stor_data E) k weights w1 of
            (Inl e, w') \<Rightarrow> (Inl e, w')
          | (Inr u, w') \<Rightarrow> (Inl (ValueError ''Enter either 'gen' or 'stor'.''), w')))"
  unfolding prediction_map_k_def using assms
  by (simp add: bnd_def raise_def split: sum.splits prod.splits)

text \<open>
  Claim C1, as amended. For every \<open>gen_or_stor\<close> other than \<open>gen\<close> and \<open>stor\<close>,
  \<open>prediction_map_k\<close> never returns a layer and never looks colours up or renders; and
  when loading the geographic source and predicting succeed, it raises the ValueError
  only then: the source has been parsed, the centres computed and both classifiers
  fitted, and the world is the one \<open>geojson_predict_k\<close> left.
\<close>

theorem C1_prediction_map_k_late_check:
  assumes "gen_or_stor \<noteq> ''gen''" and "gen_or_stor \<noteq> ''stor''"
  shows "isl (fst (prediction_map_k L E geoj k weights gen_or_stor w)) \<and>
         drawn (trace (snd (prediction_map_k L E geoj k weights gen_or_stor w)))
           = drawn (trace w) \<and>
         (load_geo E geoj w = (Inr geo_df, w1) \<and>
          geojson_predict_k L geo_df (gen_data E) (stor_data E) k weights w1 = (Inr (), w')
          \<longrightarrow> prediction_map_k L E geoj k weights gen_or_stor w
                = (Inl (ValueError ''Enter either 'gen' or 'stor'.''), w') \<and>
              trace w1 = trace w @ [GeoParse, GeoCenters] \<and>
              fits (trace w') = fits (trace w) @ [(k, weights), (k, weights)])"
proof -
  note run = prediction_map_k_bad_kind [OF assms, of L E geoj k weights w]
  obtain r1 v1 where l: "load_geo E geoj w = (r1, v1)"
    by (cases "load_geo E geoj w")
  note lt = load_geo_trace [OF l]
  have a: "isl (fst (prediction_map_k L E geoj k weights gen_or_stor w))"
    unfolding run by (simp split: sum.splits prod.splits)
  have b: "drawn (trace (snd (prediction_map_k L E geoj k weights gen_or_stor w)))
           = drawn (trace w)"
  proof (cases r1)
    case (Inl e)
    with l lt show ?thesis unfolding run by simp
  next
    case (Inr g)
    obtain r2 v2 where g2:
      "geojson_predict_k L g (gen_data E) (stor_data E) k weights v1 = (r2, v2)"
      by (cases "geojson_predict_k L g (gen_data E) (stor_data E) k weights v1")
    from geojson_predict_k_drawn [of L g "gen_data E" "stor_data E" k weights v1] g2 lt
    have "drawn (trace v2) = drawn (trace w)" by simp
    then show ?thesis unfolding run using l Inr g2 by (cases r2) simp_all
  qed
  have c: "prediction_map_k L E geoj k weights gen_or_stor w
                = (Inl (ValueError ''Enter either 'gen' or 'stor'.''), w') \<and>
              trace w1 = trace w @ [GeoParse, GeoCenters] \<and>
              fits (trace w') = fits (trace w) @ [(k, weights), (k, weights)]"
    if p: "load_geo E geoj w = (Inr geo_df, w1)"
      and g: "geojson_predict_k L geo_df (gen_data E) (stor_data E) k weights w1 = (Inr (), w')"
  proof -
    from load_geo_trace [OF p] have t1: "trace w1 = trace w @ [GeoParse, GeoCenters]"
      and f1: "fits (trace w1) = fits (trace w)" by (simp_all add: fits_append)
    from geojson_predict_k_Inr_fits [of L geo_df "gen_data E" "stor_data E" k weights w1 "()"] g f1
    have "fits (trace w') = fits (trace w) @ [(k, weights), (k, weights)]" by simp
    with p g t1 show ?thesis unfolding run by simp
  qed
  from a b c show ?thesis by blast
qed

lemma run_load_geo: "fst (load_geo demo_ela [(''WA'', 1, 2), (''NY'', 8, 8)] world0) = Inr 5"
  by code_simp

lemma run_predict_geo:
  "fst (geojson_predict_k nn_lib 5 (gen_data demo_ela) (stor_data demo_ela) 1 ''uniform''
          (snd (load_geo demo_ela [(''WA'', 1, 2), (''NY'', 8, 8)] world0))) = Inr ()"
  by code_simp

theorem C1_prediction_map_k_late_check_witness:
  "''bogus'' \<noteq> ''gen'' \<and> ''bogus'' \<noteq> ''stor'' \<and>
   fst (prediction_map_k nn_lib demo_ela [(''WA'', 1, 2), (''NY'', 8, 8)] 1 ''uniform'' ''bogus'' world0)
     = Inl (ValueError ''Enter either 'gen' or 'stor'.'') \<and>
   fits (trace (snd (prediction_map_k nn_lib demo_ela [(''WA'', 1, 2), (''NY'', 8, 8)] 1
           ''uniform'' ''bogus'' world0)))
     = [(1, ''uniform''), (1, ''uniform'')] \<and>
   drawn (trace (snd (prediction_map_k nn_lib demo_ela [(''WA'', 1, 2), (''NY'', 8, 8)] 1
           ''uniform'' ''bogus'' world0))) = []"
proof -
  have k1: "''bogus'' \<noteq> ''gen''" and k2: "''bogus'' \<noteq> ''stor''" by simp_all
  have l: "load_geo demo_ela [(''WA'', 1, 2), (''NY'', 8, 8)] world0
      = (Inr 5, snd (load_geo demo_ela [(''WA'', 1, 2), (''NY'', 8, 8)] world0))"
    using run_load_geo by (cases "load_geo demo_ela [(''WA'', 1, 2), (''NY'', 8, 8)] world0") simp
  have g: "geojson_predict_k nn_lib 5 (gen_data demo_ela) (stor_data demo_ela) 1 ''uniform''
          (snd (load_geo demo_ela [(''WA'', 1, 2), (''NY'', 8, 8)] world0))
      = (Inr (), snd (geojson_predict_k nn_lib 5 (gen_data demo_ela) (stor_data demo_ela) 1 ''uniform''
          (snd (load_geo demo_ela [(''WA'', 1, 2), (''NY'', 8, 8)] world0))))"
    using run_predict_geo
    by (cases "geojson_predict_k nn_lib 5 (gen_data demo_ela) (stor_data demo_ela) 1 ''uniform''
          (snd (load_geo demo_ela [(''WA'', 1, 2), (''NY'', 8, 8)] world0))") simp
  have t: "trace world0 = []" by (simp add: world0_def)
  note th = C1_prediction_map_k_late_check [OF k1 k2, of nn_lib demo_ela "[(''WA'', 1, 2), (''NY'', 8, 8)]" 1 "''uniform''"
      world0 5 "snd (load_geo demo_ela [(''WA'', 1, 2), (''NY'', 8, 8)] world0)"
      "snd (geojson_predict_k nn_lib 5 (gen_data demo_ela) (stor_data demo_ela) 1 ''uniform''
          (snd (load_geo demo_ela [(''WA'', 1, 2), (''NY'', 8, 8)] world0)))"]
  from th t have d: "drawn (trace (snd (prediction_map_k nn_lib demo_ela
      [(''WA'', 1, 2), (''NY'', 8, 8)] 1 ''uniform'' ''bogus'' world0))) = []"
    by simp
  from th l g have r: "prediction_map_k nn_lib demo_ela [(''WA'', 1, 2), (''NY'', 8, 8)] 1
        ''uniform'' ''bogus'' world0
      = (Inl (ValueError ''Enter either 'gen' or 'stor'.''),
         snd (geojson_predict_k nn_lib 5 (gen_data demo_ela) (stor_data demo_ela) 1 ''uniform''
          (snd (load_geo demo_ela [(''WA'', 1, 2), (''NY'', 8, 8)] world0))))"
    and f: "fits (trace (snd (geojson_predict_k nn_lib 5 (gen_data demo_ela) (stor_data demo_ela)
          1 ''uniform'' (snd (load_geo demo_ela [(''WA'', 1, 2), (''NY'', 8, 8)] world0)))))
      = fits (trace world0) @ [(1, ''uniform''), (1, ''uniform'')]"
    by blast+
  from r have r1: "fst (prediction_map_k nn_lib demo_ela [(''WA'', 1, 2), (''NY'', 8, 8)] 1
        ''uniform'' ''bogus'' world0) = Inl (ValueError ''Enter either 'gen' or 'stor'.'')"
    by simp
  from r f t have r2: "fits (trace (snd (prediction_map_k nn_lib demo_ela
      [(''WA'', 1, 2), (''NY'', 8, 8)] 1 ''uniform'' ''bogus'' world0)))
      = [(1, ''uniform''), (1, ''uniform'')]"
    by simp
  from k1 k2 r1 r2 d show ?thesis by blast
qed

text \<open>
  Claim C1 as stated fails: with \<open>gen_or_stor = bogus\<close> the ValueError is raised, but the
  event log that was empty before the call then holds the parsing, the centre
  computation and two classifier fits, so the error does not come before them.
\<close>

theorem C1_prediction_map_k_counterexample:
  "fst (prediction_map_k nn_lib demo_ela [(''WA'', 1, 2), (''NY'', 8, 8)] 1 ''uniform'' ''bogus'' world0)
     = Inl (ValueError ''Enter either 'gen' or 'stor'.'') \<and>
   trace (snd (prediction_map_k nn_lib demo_ela [(''WA'', 1, 2), (''NY'', 8, 8)] 1 ''uniform'' ''bogus'' world0))
     = [GeoParse, GeoCenters,
        Fit 1 ''uniform'' [[Num 1, Num 1], [Num 9, Num 9]] [Str ''Coal'', Str ''Wind''],
        Fit 1 ''uniform'' [[Num 1, Num 1], [Num 9, Num 9]] [Str ''Battery'', Str ''Hydro'']] \<and>
   trace world0 = []"
  by code_simp

end
